theory Spec2Isabelle
  imports Complex_Main "HOL-Library.Multiset" "HOL-Library.Product_Lexorder"
begin

section \<open>Numbers as the code sees them\<close>

text \<open>
  The arrays of \<^verbatim>\<open>topcat_scatter_utils.py\<close> hold IEEE doubles. A double is
  either a number, whose exact value is a real, or the negative zero, or one of the three
  special values. \<open>Finite 0\<close> is the positive zero; the two zeros compare equal and differ
  only when they are printed.
\<close>

datatype fl = Finite real | NegZero | PInf | NInf | NaN

text \<open>The value of a double that is finite.\<close>

fun fl_value :: "fl \<Rightarrow> real option" where
  "fl_value (Finite r) = Some r"
| "fl_value NegZero = Some 0"
| "fl_value v = None"

fun isfinite :: "fl \<Rightarrow> bool" where
  "isfinite (Finite r) = True"
| "isfinite NegZero = True"
| "isfinite PInf = False"
| "isfinite NInf = False"
| "isfinite NaN = False"

text \<open>The comparison \<^verbatim>\<open>a <= b\<close>: false as soon as one side is NaN.\<close>

fun fl_le :: "fl \<Rightarrow> fl \<Rightarrow> bool" where
  "fl_le NaN b = False"
| "fl_le a NaN = False"
| "fl_le NInf b = True"
| "fl_le a PInf = True"
| "fl_le PInf b = False"
| "fl_le a NInf = False"
| "fl_le (Finite a) (Finite b) = (a \<le> b)"
| "fl_le (Finite a) NegZero = (a \<le> 0)"
| "fl_le NegZero (Finite b) = (0 \<le> b)"
| "fl_le NegZero NegZero = True"

text \<open>\<^verbatim>\<open>a >= b\<close> is \<^verbatim>\<open>b <= a\<close>, also with NaN (both false).\<close>

definition fl_ge :: "fl \<Rightarrow> fl \<Rightarrow> bool" where
  "fl_ge a b = fl_le b a"

text \<open>
  The order in which numpy sorts doubles: \<^verbatim>\<open>-inf\<close>, the numbers (the two zeros as
  equals), \<^verbatim>\<open>inf\<close>, and NaN last.
\<close>

fun np_key :: "fl \<Rightarrow> nat \<times> real" where
  "np_key NInf = (0, 0)"
| "np_key (Finite r) = (1, r)"
| "np_key NegZero = (1, 0)"
| "np_key PInf = (2, 0)"
| "np_key NaN = (3, 0)"

section \<open>Strings the code formats\<close>

definition digit :: "nat \<Rightarrow> char" where
  "digit d = ''0123456789'' ! (d mod 10)"

fun decimal :: "nat \<Rightarrow> string" where
  "decimal n = (if n < 10 then [digit n] else decimal (n div 10) @ [digit (n mod 10)])"

declare decimal.simps [simp del]

text \<open>Rounding to the nearest integer, ties to even, as float formatting rounds.\<close>

definition round_half_even :: "real \<Rightarrow> int" where
  "round_half_even q =
     (let f = \<lfloor>q\<rfloor>; d = q - of_int f
      in if d < 1 / 2 then f
         else if 1 / 2 < d then f + 1
         else if even f then f else f + 1)"

text \<open>
  \<^verbatim>\<open>'{:.2f}'.format(v)\<close>: the sign, the integer part, a point and two digits, from the
  exact value of the double rounded to hundredths. The negative zero keeps its sign.
\<close>

fun format_2f :: "fl \<Rightarrow> string" where
  "format_2f NaN = ''nan''"
| "format_2f NegZero = ''-0.00''"
| "format_2f PInf = ''inf''"
| "format_2f NInf = ''-inf''"
| "format_2f (Finite r) =
     (let k = nat (round_half_even (\<bar>r\<bar> * 100))
      in (if r < 0 then ''-'' else '''') @ decimal (k div 100) @ ''.'' @
         [digit (k mod 100 div 10), digit (k mod 10)])"

section \<open>Errors, events and the external collaborators\<close>

text \<open>
  \<^verbatim>\<open>ValidationError\<close> stands for the \<^verbatim>\<open>ValueError\<close> of one of the module's own
  \<^verbatim>\<open>raise\<close> statements, with the values its message reports. What a collaborator
  raises is kept apart as \<open>External\<close>, whatever its Python class.
\<close>

datatype validation =
    Length_mismatch nat nat
  | Too_few_points nat
  | Bandwidth_not_positive fl
  | Range_reversed fl fl
  | Range_out_of_bounds fl fl

datatype 'e error =
    ValidationError validation
  | IndexError
  | LinspaceError int
  | DuplicateKeyword string
  | External 'e

text \<open>A value of a keyword option: a string, or anything else.\<close>

datatype 'v pyval = Str string | Obj 'v

type_synonym 'v kwargs = "(string \<times> 'v pyval) list"

text \<open>
  A source gradient has a name and maps a position to a colour. The gradient
  \<^verbatim>\<open>LinearSegmentedColormap.from_list(name, colors)\<close> builds is kept as the two
  arguments it is built from.
\<close>

record 'c colormap =
  cm_name :: string
  cm_call :: "fl \<Rightarrow> 'c"

record 'c gradient =
  g_name :: string
  g_colors :: "'c list"

datatype 'c cmap_arg = Named string | Object "'c colormap"

text \<open>
  What the module does to the world outside, in the order it does it: the warning it
  emits and every call to a collaborator of the specification (section 6), that is the
  estimator, the registry and the gradients, and the plotting surface. The array
  operations of numpy are computed in the model itself.
\<close>

datatype ('c, 's, 'v) event =
    Warning string
  | Call_gaussian_kde "fl list" "fl list" "fl option"
  | Call_get_cmap string
  | Call_cmap string "fl list"
  | Call_from_list string "'c list"
  | Call_gca
  | Call_scatter 's "fl list" "fl list" "fl list" "'c gradient" "'v kwargs"

text \<open>
  The collaborators: \<^verbatim>\<open>scipy.stats.gaussian_kde\<close> fitted on the stacked points and
  evaluated at them, \<^verbatim>\<open>plt.get_cmap\<close>, \<^verbatim>\<open>plt.gca\<close> and \<^verbatim>\<open>ax.scatter\<close>. Each
  of the three that compute can fail. With them comes the arithmetic of the machine:
  \<open>fl_round\<close> takes the exact result of an operation on doubles to the double that the
  operation returns.
\<close>

record ('c, 'e, 's, 'h, 'v) libs =
  fl_round :: "real \<Rightarrow> real"
  gaussian_kde :: "fl list \<Rightarrow> fl list \<Rightarrow> fl option \<Rightarrow> 'e + fl list"
  get_cmap :: "string \<Rightarrow> 'e + 'c colormap"
  gca :: "'s"
  scatter :: "'s \<Rightarrow> fl list \<Rightarrow> fl list \<Rightarrow> fl list \<Rightarrow> 'c gradient \<Rightarrow> 'v kwargs \<Rightarrow> 'e + 'h"

section \<open>Array operations\<close>

text \<open>\<^verbatim>\<open>x[mask]\<close>: the entries where the mask is true.\<close>

definition compress :: "bool list \<Rightarrow> 'a list \<Rightarrow> 'a list" where
  "compress msk xs = map snd (filter fst (zip msk xs))"

text \<open>
  \<^verbatim>\<open>z.argsort()\<close>: the indices of \<open>z\<close> in numpy's sorting order. numpy's default sort
  is not stable and leaves the order of equal values open; here they keep their index
  order, and no statement below depends on the order of equal densities.
\<close>

definition argsort :: "fl list \<Rightarrow> nat list" where
  "argsort z = sort_key (\<lambda>i. np_key (z ! i)) [0..<length z]"

text \<open>\<^verbatim>\<open>x[idx]\<close>: raises IndexError when an index is out of bounds.\<close>

definition take_idx :: "'a list \<Rightarrow> nat list \<Rightarrow> 'e error + 'a list" where
  "take_idx xs idx =
     (if list_all (\<lambda>i. i < length xs) idx then Inr (map (\<lambda>i. xs ! i) idx) else Inl IndexError)"

text \<open>
  \<^verbatim>\<open>np.linspace(start, stop, n)\<close>, operation by operation as numpy computes it, each
  result rounded by \<open>rnd\<close>. A negative count is refused. Otherwise
  \<^verbatim>\<open>delta = stop - start\<close> and \<^verbatim>\<open>y = arange(0, n)\<close>; for \<open>n\<close> at least 2,
  \<^verbatim>\<open>step = delta / (n - 1)\<close> and \<^verbatim>\<open>y = y * step\<close> (or, when the step has
  underflowed to zero, \<^verbatim>\<open>y = y / (n - 1) * delta\<close>), for a single sample
  \<^verbatim>\<open>y = y * delta\<close>; then \<^verbatim>\<open>y += start\<close>, and for \<open>n\<close> at least 2 the last sample
  is set to \<open>stop\<close> itself. Behind the range validation both ends are finite and all
  results are at least zero, so that no result is a negative zero; with an end that is
  not finite numpy returns values that are not numbers.
\<close>

definition linspace :: "(real \<Rightarrow> real) \<Rightarrow> fl \<Rightarrow> fl \<Rightarrow> int \<Rightarrow> fl list option" where
  "linspace rnd start stop n =
     (if n < 0 then None
      else case (fl_value start, fl_value stop) of
        (Some a, Some b) \<Rightarrow>
          (let num = nat n; delta = rnd (b - a)
           in if num = 0 then Some []
              else if num = 1 then Some [Finite (rnd (rnd (0 * delta) + a))]
              else
                let d = real (num - 1);
                    step = rnd (delta / d);
                    y = (\<lambda>i. if step = 0 then rnd (rnd (real i / d) * delta)
                             else rnd (real i * step))
                in Some (map (\<lambda>i. Finite (rnd (y i + a))) [0..<num - 1] @ [stop]))
      | _ \<Rightarrow> Some (replicate (nat n) NaN))"

text \<open>\<^verbatim>\<open>kw.setdefault(k, v)\<close> on a dict kept in insertion order.\<close>

definition setdefault :: "string \<Rightarrow> 'v pyval \<Rightarrow> 'v kwargs \<Rightarrow> 'v kwargs" where
  "setdefault k v kw = (if k \<in> set (map fst kw) then kw else kw @ [(k, v)])"

section \<open>calculate_density\<close>

definition finite_mask :: "fl list \<Rightarrow> fl list \<Rightarrow> bool list" where
  "finite_mask x y = map (\<lambda>(a, b). isfinite a \<and> isfinite b) (zip x y)"

definition warning_message :: "nat \<Rightarrow> string" where
  "warning_message n_bad =
     ''Removing '' @ decimal n_bad @ '' points with NaN or infinite values''"

text \<open>Lines 70 and 71: the sorting permutation applied to the three arrays.\<close>

definition sort_by_density ::
  "fl list \<Rightarrow> fl list \<Rightarrow> fl list \<Rightarrow> 'e error + fl list \<times> fl list \<times> fl list" where
  "sort_by_density x y z =
     (let idx = argsort z
      in case take_idx x idx of
           Inl e \<Rightarrow> Inl e
         | Inr x_sorted \<Rightarrow>
             (case take_idx y idx of
                Inl e \<Rightarrow> Inl e
              | Inr y_sorted \<Rightarrow>
                  (case take_idx z idx of
                     Inl e \<Rightarrow> Inl e
                   | Inr density \<Rightarrow> Inr (x_sorted, y_sorted, density))))"

text \<open>
  Lines 45 to 73. The three checks come first, in the source's order; then the mask, the
  warning and the compression when a pair is not finite; then the call of the estimator on
  what is left, and the sort. The first component of the result is what was emitted and
  called on the way, the second the exception raised or the value returned.
\<close>

definition calculate_density ::
  "('c, 'e, 's, 'h, 'v) libs \<Rightarrow> fl list \<Rightarrow> fl list \<Rightarrow> fl option \<Rightarrow>
   ('c, 's, 'v) event list \<times> ('e error + fl list \<times> fl list \<times> fl list)" where
  "calculate_density L x y bandwidth =
     (if length x \<noteq> length y then
        ([], Inl (ValidationError (Length_mismatch (length x) (length y))))
      else if length x < 2 then
        ([], Inl (ValidationError (Too_few_points (length x))))
      else if bandwidth \<noteq> None \<and> fl_le (the bandwidth) (Finite 0) then
        ([], Inl (ValidationError (Bandwidth_not_positive (the bandwidth))))
      else
        let msk = finite_mask x y;
            (w, x1, y1) =
              (if \<not> list_all (\<lambda>m. m) msk then
                 let n_bad = length (filter (\<lambda>m. \<not> m) msk)
                 in ([Warning (warning_message n_bad)], compress msk x, compress msk y)
               else ([], x, y));
            ev = w @ [Call_gaussian_kde x1 y1 bandwidth]
        in case gaussian_kde L x1 y1 bandwidth of
             Inl e \<Rightarrow> (ev, Inl (External e))
           | Inr z \<Rightarrow> (ev, sort_by_density x1 y1 z))"

section \<open>truncate_colormap\<close>

text \<open>Lines 108 and 109: a name is looked up in the registry, an object is taken as it is.\<close>

fun resolve ::
  "('c, 'e, 's, 'h, 'v) libs \<Rightarrow> 'c cmap_arg \<Rightarrow>
   ('c, 's, 'v) event list \<times> ('e error + 'c colormap)" where
  "resolve L (Named s) =
     ([Call_get_cmap s], case get_cmap L s of Inl e \<Rightarrow> Inl (External e) | Inr c \<Rightarrow> Inr c)"
| "resolve L (Object c) = ([], Inr c)"

text \<open>
  Lines 107 to 122. The name is resolved first, the range is checked next, and only then is
  the source gradient sampled and the new gradient built.
\<close>

definition truncated_name :: "string \<Rightarrow> fl \<Rightarrow> fl \<Rightarrow> string" where
  "truncated_name nm a b =
     ''truncated('' @ nm @ '','' @ format_2f a @ '','' @ format_2f b @ '')''"

definition truncate_colormap ::
  "('c, 'e, 's, 'h, 'v) libs \<Rightarrow> 'c cmap_arg \<Rightarrow> fl \<Rightarrow> fl \<Rightarrow> int \<Rightarrow>
   ('c, 's, 'v) event list \<times> ('e error + 'c gradient)" where
  "truncate_colormap L cmap minval maxval n =
     (case resolve L cmap of
        (ev, Inl e) \<Rightarrow> (ev, Inl e)
      | (ev, Inr c) \<Rightarrow>
          if fl_ge minval maxval then
            (ev, Inl (ValidationError (Range_reversed minval maxval)))
          else if \<not> (fl_le (Finite 0) minval \<and> fl_le minval (Finite 1) \<and>
                     fl_le (Finite 0) maxval \<and> fl_le maxval (Finite 1)) then
            (ev, Inl (ValidationError (Range_out_of_bounds minval maxval)))
          else
            let nm = truncated_name (cm_name c) minval maxval
            in (case linspace (fl_round L) minval maxval n of
                  None \<Rightarrow> (ev, Inl (LinspaceError n))
                | Some ps \<Rightarrow>
                    let colors = map (cm_call c) ps
                    in (ev @ [Call_cmap (cm_name c) ps, Call_from_list nm colors],
                        Inr \<lparr>g_name = nm, g_colors = colors\<rparr>)))"

section \<open>plot_density_scatter\<close>

text \<open>
  Line 173 passes \<^verbatim>\<open>c\<close> and \<^verbatim>\<open>cmap\<close> by keyword next to \<^verbatim>\<open>**scatter_kwargs\<close>:
  Python raises a TypeError, before the call, when the dict holds one of the two keys.
\<close>

definition duplicate_keyword :: "'v kwargs \<Rightarrow> string option" where
  "duplicate_keyword kw =
     map_option fst (find (\<lambda>kv. fst kv = ''c'' \<or> fst kv = ''cmap'') kw)"

text \<open>
  Lines 164 to 175. An exception of \<open>calculate_density\<close> or of \<open>truncate_colormap\<close> ends
  the call where it is raised.
\<close>

definition plot_density_scatter ::
  "('c, 'e, 's, 'h, 'v) libs \<Rightarrow> fl list \<Rightarrow> fl list \<Rightarrow> fl option \<Rightarrow> 'c cmap_arg \<Rightarrow>
   fl \<Rightarrow> fl \<Rightarrow> int \<Rightarrow> 's option \<Rightarrow> 'v kwargs \<Rightarrow>
   ('c, 's, 'v) event list \<times> ('e error + 'h)" where
  "plot_density_scatter L x y bandwidth cmap minval maxval n ax scatter_kwargs =
     (case calculate_density L x y bandwidth of
        (ev1, Inl e) \<Rightarrow> (ev1, Inl e)
      | (ev1, Inr (x_sorted, y_sorted, density)) \<Rightarrow>
          (case truncate_colormap L cmap minval maxval n of
             (ev2, Inl e) \<Rightarrow> (ev1 @ ev2, Inl e)
           | (ev2, Inr truncated_cmap) \<Rightarrow>
               let (ev3, ax1) =
                     (case ax of None \<Rightarrow> ([Call_gca], gca L) | Some a \<Rightarrow> ([], a));
                   kw = setdefault ''edgecolor'' (Str ''None'') scatter_kwargs
               in (case duplicate_keyword kw of
                     Some k \<Rightarrow> (ev1 @ ev2 @ ev3, Inl (DuplicateKeyword k))
                   | None \<Rightarrow>
                       (ev1 @ ev2 @ ev3 @
                          [Call_scatter ax1 x_sorted y_sorted density truncated_cmap kw],
                        case scatter L ax1 x_sorted y_sorted density truncated_cmap kw of
                          Inl e \<Rightarrow> Inl (External e)
                        | Inr h \<Rightarrow> Inr h))))"

section \<open>The words of the specification\<close>

text \<open>\<^verbatim>\<open>a < b\<close> on doubles, for "positive".\<close>

fun fl_lt :: "fl \<Rightarrow> fl \<Rightarrow> bool" where
  "fl_lt NaN b = False"
| "fl_lt a NaN = False"
| "fl_lt (Finite a) (Finite b) = (a < b)"
| "fl_lt NInf NInf = False"
| "fl_lt NInf b = True"
| "fl_lt PInf b = False"
| "fl_lt (Finite a) PInf = True"
| "fl_lt (Finite a) NInf = False"
| "fl_lt NegZero PInf = True"
| "fl_lt NegZero NInf = False"
| "fl_lt (Finite a) NegZero = (a < 0)"
| "fl_lt NegZero (Finite b) = (0 < b)"
| "fl_lt NegZero NegZero = False"

text \<open>A bandwidth is valid when it is absent or positive.\<close>

definition bandwidth_ok :: "fl option \<Rightarrow> bool" where
  "bandwidth_ok bandwidth =
     (case bandwidth of None \<Rightarrow> True | Some b \<Rightarrow> fl_lt (Finite 0) b)"

text \<open>A pair is finite when both coordinates are; cleaning keeps the finite pairs.\<close>

definition finite_pair :: "fl \<times> fl \<Rightarrow> bool" where
  "finite_pair p = (isfinite (fst p) \<and> isfinite (snd p))"

definition cleaned :: "fl list \<Rightarrow> fl list \<Rightarrow> (fl \<times> fl) list" where
  "cleaned x y = filter finite_pair (zip x y)"

definition dropped :: "fl list \<Rightarrow> fl list \<Rightarrow> (fl \<times> fl) list" where
  "dropped x y = filter (\<lambda>p. \<not> finite_pair p) (zip x y)"

text \<open>
  The number that a decimal numeral stands for, read digit by digit against the table of
  the ten digits; a numeral has at least one digit, and no leading zero unless it is the
  numeral of zero.
\<close>

definition digit_value :: "char \<Rightarrow> nat option" where
  "digit_value c =
     map_of [(CHR ''0'', 0), (CHR ''1'', 1), (CHR ''2'', 2), (CHR ''3'', 3), (CHR ''4'', 4),
             (CHR ''5'', 5), (CHR ''6'', 6), (CHR ''7'', 7), (CHR ''8'', 8), (CHR ''9'', 9)] c"



text \<open>
  A string that writes a number of the unit interval to two decimal places: after the
  sign, if there is one, a digit, a point and two digits, whose value is within half a
  hundredth of the number.
\<close>

definition two_decimals :: "string \<Rightarrow> real \<Rightarrow> bool" where
  "two_decimals s r =
     (case (if take 1 s = ''-'' then drop 1 s else s) of
        [d0, p, d1, d2] \<Rightarrow>
          p = CHR ''.'' \<and>
          (case (digit_value d0, digit_value d1, digit_value d2) of
             (Some k0, Some k1, Some k2) \<Rightarrow>
               \<bar>real (100 * k0 + 10 * k1 + k2) / 100 - \<bar>r\<bar>\<bar> \<le> 1 / 200
           | _ \<Rightarrow> False)
      | _ \<Rightarrow> False)"

text \<open>A value outside the closed interval from 0 to 1; what is not a number is not inside.\<close>

fun outside_unit :: "fl \<Rightarrow> bool" where
  "outside_unit (Finite r) = (r < 0 \<or> 1 < r)"
| "outside_unit NegZero = False"
| "outside_unit v = True"

text \<open>The events that reach the drawing surface.\<close>

fun surface_event :: "('c, 's, 'v) event \<Rightarrow> bool" where
  "surface_event Call_gca = True"
| "surface_event (Call_scatter ax xs ys c g kw) = True"
| "surface_event e = False"

section \<open>Collaborators to run the model on examples\<close>

text \<open>
  An estimator that counts the points in the unit window around each point; it refuses
  fewer than two points, below which the specification (4.1) calls kernel-density
  estimation undefined. A registry that knows one gradient, whose colour at a position is
  the position, and fails on any other name. A scatter primitive whose handle is the number
  of markers drawn.
\<close>

fun near :: "fl \<Rightarrow> fl \<Rightarrow> bool" where
  "near a b =
     (case (fl_value a, fl_value b) of (Some p, Some q) \<Rightarrow> \<bar>p - q\<bar> \<le> 1 | _ \<Rightarrow> False)"

definition window_kde :: "fl list \<Rightarrow> fl list \<Rightarrow> fl option \<Rightarrow> string + fl list" where
  "window_kde x y bw =
     (if length x < 2 then Inl ''too few points''
      else Inr (map (\<lambda>p. Finite (real (length
                  (filter (\<lambda>q. near (fst p) (fst q) \<and> near (snd p) (snd q)) (zip x y)))))
                (zip x y)))"




definition registry :: "string \<Rightarrow> string + fl colormap" where
  "registry s =
     (if s = ''Reds'' then Inr \<lparr>cm_name = ''Reds'', cm_call = (\<lambda>p. p)\<rparr>
      else Inl ''unknown colormap'')"

text \<open>
  The arithmetic of \<open>demo_libs\<close> is exact. To run the model with a rounding that is not,
  \<open>binary10\<close> rounds every result to ten binary places.
\<close>

definition binary10 :: "real \<Rightarrow> real" where
  "binary10 x = real_of_int \<lfloor>x * 1024 + 1 / 2\<rfloor> / 1024"

definition demo_libs :: "(fl, string, nat, nat, unit) libs" where
  "demo_libs =
     \<lparr>fl_round = (\<lambda>r. r), gaussian_kde = window_kde, get_cmap = registry, gca = 0,
      scatter = (\<lambda>ax xs ys c g kw. Inr (length xs))\<rparr>"

section \<open>Properties of calculate_density\<close>

lemma finite_mask_zip: "finite_mask x y = map finite_pair (zip x y)"
  by (simp add: finite_mask_def finite_pair_def case_prod_beta)

lemma compress_map: "compress (map P ps) (map f ps) = map f (filter P ps)"
  by (induction ps) (simp_all add: compress_def)

lemma compress_fst:
  "length x = length y \<Longrightarrow> compress (finite_mask x y) x = map fst (cleaned x y)"
  using compress_map [of finite_pair "zip x y" fst]
  by (simp add: finite_mask_zip cleaned_def)

lemma compress_snd:
  "length x = length y \<Longrightarrow> compress (finite_mask x y) y = map snd (cleaned x y)"
  using compress_map [of finite_pair "zip x y" snd]
  by (simp add: finite_mask_zip cleaned_def)

lemma mask_all: "list_all (\<lambda>m. m) (finite_mask x y) = list_all finite_pair (zip x y)"
  by (simp add: finite_mask_zip list_all_iff)

lemma mask_bad: "length (filter (\<lambda>m. \<not> m) (finite_mask x y)) = length (dropped x y)"
  by (simp add: finite_mask_zip filter_map comp_def dropped_def)

lemma cleaned_all: "list_all finite_pair (zip x y) \<Longrightarrow> cleaned x y = zip x y"
  by (simp add: cleaned_def list_all_iff)

lemma length_cleaned: "length (cleaned x y) \<le> length x"
proof -
  have "length (cleaned x y) \<le> length (zip x y)"
    unfolding cleaned_def by (rule length_filter_le)
  then show ?thesis by simp
qed

lemma positive_not_le: "fl_lt (Finite 0) b \<Longrightarrow> \<not> fl_le b (Finite 0)"
  by (cases b) simp_all

lemma bandwidth_ok_guard:
  "bandwidth_ok bandwidth \<Longrightarrow> \<not> (bandwidth \<noteq> None \<and> fl_le (the bandwidth) (Finite 0))"
  by (cases bandwidth) (simp_all add: bandwidth_ok_def positive_not_le)

text \<open>What the function does once its three checks have passed.\<close>

lemma calculate_density_valid:
  assumes "length x = length y" and "2 \<le> length x"
    and "\<not> (bandwidth \<noteq> None \<and> fl_le (the bandwidth) (Finite 0))"
  shows "calculate_density L x y bandwidth =
           ((if list_all finite_pair (zip x y) then []
             else [Warning (warning_message (length (dropped x y)))]) @
            [Call_gaussian_kde (map fst (cleaned x y)) (map snd (cleaned x y)) bandwidth],
            case gaussian_kde L (map fst (cleaned x y)) (map snd (cleaned x y)) bandwidth of
              Inl e \<Rightarrow> Inl (External e)
            | Inr z \<Rightarrow> sort_by_density (map fst (cleaned x y)) (map snd (cleaned x y)) z)"
proof (cases "list_all finite_pair (zip x y)")
  case True
  then have "map fst (cleaned x y) = x" "map snd (cleaned x y) = y"
    using assms(1) by (simp_all add: cleaned_all)
  then show ?thesis
    using assms True
    by (simp add: calculate_density_def mask_all split: sum.splits)
next
  case False
  then show ?thesis
    using assms
    by (simp add: calculate_density_def mask_all mask_bad compress_fst compress_snd
          split: sum.splits)
qed

lemma sort_by_density_no_validation: "sort_by_density x y z \<noteq> Inl (ValidationError v)"
  by (auto simp: sort_by_density_def Let_def take_idx_def split: sum.splits if_splits)

lemma np_key_le: "a \<noteq> NaN \<Longrightarrow> b \<noteq> NaN \<Longrightarrow> np_key a \<le> np_key b \<Longrightarrow> fl_le a b"
  by (cases a; cases b) simp_all

lemma mset_argsort: "mset (argsort z) = mset [0..<length z]"
  by (simp add: argsort_def)

lemma set_argsort: "set (argsort z) = {0..<length z}"
  by (simp add: argsort_def)

lemma length_argsort: "length (argsort z) = length z"
  by (simp add: argsort_def)

lemma sorted_argsort: "sorted (map np_key (map (\<lambda>i. z ! i) (argsort z)))"
proof -
  have "sorted (map (\<lambda>i. np_key (z ! i)) (argsort z))"
    unfolding argsort_def by (rule sorted_sort_key)
  then show ?thesis by (simp add: comp_def)
qed

lemma take_idx_argsort:
  "length xs = length z \<Longrightarrow> take_idx xs (argsort z) = Inr (map (\<lambda>i. xs ! i) (argsort z))"
  by (simp add: take_idx_def list_all_iff set_argsort)

lemma sort_by_density_eq:
  assumes "length x = length z" and "length y = length z"
  shows "sort_by_density x y z =
           Inr (map (\<lambda>i. x ! i) (argsort z), map (\<lambda>i. y ! i) (argsort z),
                map (\<lambda>i. z ! i) (argsort z))"
  using assms by (simp add: sort_by_density_def Let_def take_idx_argsort)

lemma zip3_nth:
  assumes "length x = length z" and "length y = length z"
  shows "map (\<lambda>i. (x ! i, y ! i, z ! i)) [0..<length z] = zip x (zip y z)"
  using assms by (intro nth_equalityI) simp_all

lemma mset_sorted_triples:
  assumes "length x = length z" and "length y = length z"
  shows "mset (zip (map (\<lambda>i. x ! i) (argsort z))
                (zip (map (\<lambda>i. y ! i) (argsort z)) (map (\<lambda>i. z ! i) (argsort z)))) =
         mset (zip x (zip y z))"
proof -
  have "zip (map (\<lambda>i. x ! i) (argsort z))
          (zip (map (\<lambda>i. y ! i) (argsort z)) (map (\<lambda>i. z ! i) (argsort z))) =
        map (\<lambda>i. (x ! i, y ! i, z ! i)) (argsort z)"
    by (simp add: zip_map_map map_zip_map map_zip_map2 zip_same_conv_map comp_def)
  moreover have "mset (map (\<lambda>i. (x ! i, y ! i, z ! i)) (argsort z)) =
        mset (map (\<lambda>i. (x ! i, y ! i, z ! i)) [0..<length z])"
    by (simp only: mset_map mset_argsort)
  ultimately show ?thesis
    using zip3_nth [OF assms] by simp
qed

lemma sorted_density:
  assumes "NaN \<notin> set z"
  shows "sorted_wrt fl_le (map (\<lambda>i. z ! i) (argsort z))"
proof -
  let ?d = "map (\<lambda>i. z ! i) (argsort z)"
  have "set ?d \<subseteq> set z"
    by (auto simp: set_argsort)
  then have nn: "\<forall>a \<in> set ?d. a \<noteq> NaN"
    using assms by auto
  have "sorted_wrt (\<lambda>a b. np_key a \<le> np_key b) ?d"
    using sorted_argsort [of z] by (simp only: sorted_map)
  then show ?thesis
    by (rule sorted_wrt_mono_rel [rotated]) (use nn np_key_le in blast)
qed

lemma demo_cleaned:
  "cleaned [Finite 3, NaN, Finite 1, Finite 1] [Finite 3, Finite 0, Finite 1, Finite (3/2)] =
     [(Finite 3, Finite 3), (Finite 1, Finite 1), (Finite 1, Finite (3/2))]"
  by (simp add: cleaned_def finite_pair_def)

lemma demo_kde:
  "window_kde [Finite 3, Finite 1, Finite 1] [Finite 3, Finite 1, Finite (3/2)] None =
     Inr [Finite 1, Finite 2, Finite 2]"
  by (simp add: window_kde_def)

text \<open>
  C1, amended. For equal-length \<open>x\<close> and \<open>y\<close> of length at least 2 and a bandwidth that
  is absent or positive, whenever the kernel-density primitive returns one density, a
  number, for each cleaned pair, \<open>calculate_density\<close> returns three sequences of one
  length, at most the length of \<open>x\<close>, the densities are non-decreasing, and the returned
  triples are a permutation of the cleaned pairs paired with their densities.
\<close>

theorem calculate_density_sorted_permutation:
  assumes "length x = length y" and "2 \<le> length x" and "bandwidth_ok bandwidth"
    and "gaussian_kde L (map fst (cleaned x y)) (map snd (cleaned x y)) bandwidth = Inr z"
    and "length z = length (cleaned x y)" and "NaN \<notin> set z"
  shows "\<exists>x_sorted y_sorted density.
           snd (calculate_density L x y bandwidth) = Inr (x_sorted, y_sorted, density) \<and>
           length x_sorted = length density \<and> length y_sorted = length density \<and>
           length density \<le> length x \<and>
           sorted_wrt fl_le density \<and>
           mset (zip x_sorted (zip y_sorted density)) =
             mset (zip (map fst (cleaned x y)) (zip (map snd (cleaned x y)) z))"
proof -
  let ?cx = "map fst (cleaned x y)" and ?cy = "map snd (cleaned x y)"
  have lx: "length ?cx = length z" and ly: "length ?cy = length z"
    using assms(5) by simp_all
  have "snd (calculate_density L x y bandwidth) = sort_by_density ?cx ?cy z"
    using assms(1,2,4) bandwidth_ok_guard [OF assms(3)] by (simp add: calculate_density_valid)
  then have res: "snd (calculate_density L x y bandwidth) =
      Inr (map (\<lambda>i. ?cx ! i) (argsort z), map (\<lambda>i. ?cy ! i) (argsort z),
           map (\<lambda>i. z ! i) (argsort z))"
    by (simp only: sort_by_density_eq [OF lx ly])
  have len: "length (argsort z) \<le> length x"
    using length_cleaned [of x y] assms(5) by (simp add: length_argsort)
  show ?thesis
  proof (intro exI conjI)
    show "snd (calculate_density L x y bandwidth) =
      Inr (map (\<lambda>i. ?cx ! i) (argsort z), map (\<lambda>i. ?cy ! i) (argsort z),
           map (\<lambda>i. z ! i) (argsort z))"
      by (rule res)
    show "sorted_wrt fl_le (map (\<lambda>i. z ! i) (argsort z))"
      by (rule sorted_density [OF assms(6)])
    show "mset (zip (map (\<lambda>i. ?cx ! i) (argsort z))
                 (zip (map (\<lambda>i. ?cy ! i) (argsort z)) (map (\<lambda>i. z ! i) (argsort z)))) =
          mset (zip ?cx (zip ?cy z))"
      by (rule mset_sorted_triples [OF lx ly])
    show "length (map (\<lambda>i. z ! i) (argsort z)) \<le> length x"
      using len by simp
  qed simp_all
qed

theorem calculate_density_sorted_permutation_witness:
  "\<exists>x_sorted y_sorted density.
     snd (calculate_density demo_libs [Finite 3, NaN, Finite 1, Finite 1]
            [Finite 3, Finite 0, Finite 1, Finite (3/2)] None) =
       Inr (x_sorted, y_sorted, density) \<and>
     length x_sorted = length density \<and> length y_sorted = length density \<and>
     length density \<le> length [Finite 3, NaN, Finite 1, Finite 1] \<and>
     sorted_wrt fl_le density \<and>
     mset (zip x_sorted (zip y_sorted density)) =
       mset [(Finite 3, Finite 3, Finite 1), (Finite 1, Finite 1, Finite 2),
             (Finite 1, Finite (3/2), Finite 2)]"
proof -
  let ?x = "[Finite 3, NaN, Finite 1, Finite 1]"
  let ?y = "[Finite 3, Finite 0, Finite 1, Finite (3/2)]"
  let ?z = "[Finite 1, Finite 2, Finite 2]"
  have h1: "length ?x = length ?y" and h2: "2 \<le> length ?x" and h3: "bandwidth_ok None"
    by (simp_all add: bandwidth_ok_def)
  have h4: "gaussian_kde demo_libs (map fst (cleaned ?x ?y)) (map snd (cleaned ?x ?y)) None =
      Inr ?z"
    by (simp add: demo_cleaned demo_kde demo_libs_def)
  have h5: "length ?z = length (cleaned ?x ?y)" and h6: "NaN \<notin> set ?z"
    by (simp_all add: demo_cleaned)
  have c: "zip (map fst (cleaned ?x ?y)) (zip (map snd (cleaned ?x ?y)) ?z) =
      [(Finite 3, Finite 3, Finite 1), (Finite 1, Finite 1, Finite 2),
       (Finite 1, Finite (3/2), Finite 2)]"
    by (simp add: demo_cleaned)
  show ?thesis
    using calculate_density_sorted_permutation [OF h1 h2 h3 h4 h5 h6]
    unfolding c .
qed

text \<open>
  Without the proviso the statement fails: the input below is valid, one finite pair is left
  after cleaning, the primitive refuses it and nothing is returned.
\<close>

theorem calculate_density_one_finite_pair:
  "calculate_density demo_libs [NaN, Finite 5, PInf] [Finite 1, Finite 2, Finite 3] None =
     ([Warning ''Removing 2 points with NaN or infinite values'',
       Call_gaussian_kde [Finite 5] [Finite 2] None],
      Inl (External ''too few points''))"
  by (simp add: calculate_density_def finite_mask_def compress_def demo_libs_def window_kde_def
      warning_message_def decimal.simps digit_def Let_def)

text \<open>
  C2. \<open>calculate_density\<close> raises ValidationError exactly when the lengths differ, or
  fewer than 2 points are supplied, or a bandwidth is supplied that is at most 0; so a call
  without bandwidth on equal-length input of length at least 2 raises none.
\<close>

theorem calculate_density_validation_iff:
  "((\<exists>v. snd (calculate_density L x y bandwidth) = Inl (ValidationError v)) \<longleftrightarrow>
      (length x \<noteq> length y \<or> length x < 2 \<or>
       (\<exists>b. bandwidth = Some b \<and> fl_le b (Finite 0)))) \<and>
   (length x = length y \<and> 2 \<le> length x \<longrightarrow>
      (\<forall>v. snd (calculate_density L x y None) \<noteq> Inl (ValidationError v)))"
proof -
  have none: "\<forall>v. snd (calculate_density L x y bw) \<noteq> Inl (ValidationError v)"
    if "length x = length y" "2 \<le> length x"
       "\<not> (bw \<noteq> None \<and> fl_le (the bw) (Finite 0))" for bw
    using that
    by (simp add: calculate_density_valid sort_by_density_no_validation split: sum.splits)
  show ?thesis
  proof (cases "length x = length y \<and> 2 \<le> length x")
    case True
    show ?thesis
    proof (cases "bandwidth \<noteq> None \<and> fl_le (the bandwidth) (Finite 0)")
      case False
      then have "\<not> (\<exists>b. bandwidth = Some b \<and> fl_le b (Finite 0))"
        by auto
      then show ?thesis
        using True none [of bandwidth] none [of None] False by auto
    next
      case bad: True
      then have "\<exists>v. snd (calculate_density L x y bandwidth) = Inl (ValidationError v)"
        using True by (simp add: calculate_density_def)
      moreover have "\<exists>b. bandwidth = Some b \<and> fl_le b (Finite 0)"
        using bad by auto
      ultimately show ?thesis
        using True none [of None] by auto
    qed
  next
    case False
    then have "\<exists>v. snd (calculate_density L x y bandwidth) = Inl (ValidationError v)"
      by (auto simp: calculate_density_def)
    then show ?thesis
      using False by auto
  qed
qed

theorem calculate_density_validation_iff_witness:
  "(\<exists>v. snd (calculate_density demo_libs [Finite 1] [Finite 1, Finite 2] None) =
      Inl (ValidationError v)) \<and>
   (\<forall>v. snd (calculate_density demo_libs [NaN, Finite 2] [Finite 1, Finite 2] None) \<noteq>
      Inl (ValidationError v))"
  using calculate_density_validation_iff [of demo_libs "[Finite 1]" "[Finite 1, Finite 2]" None]
    calculate_density_validation_iff [of demo_libs "[NaN, Finite 2]" "[Finite 1, Finite 2]" None]
  by simp

lemma digit_value_digit: "digit_value (digit d) = Some (d mod 10)"
proof -
  have "d mod 10 \<in> {0, 1, 2, 3, 4, 5, 6, 7, 8, 9}"
    by (simp add: insert_commute) presburger
  then show ?thesis
    by (auto simp: digit_def digit_value_def)
qed










section \<open>The minimum count is checked before cleaning\<close>

text \<open>
  C10. When \<open>x\<close> and \<open>y\<close> have one length of at least 2 (and no bandwidth that is at most
  0 is supplied) but fewer than 2 pairs are finite, \<open>calculate_density\<close> raises no
  ValidationError: the kernel-density primitive is called on the cleaned pairs, fewer than
  2 of them, possibly none.
\<close>

theorem calculate_density_min_count_before_cleaning:
  assumes "length x = length y" and "2 \<le> length x"
    and "\<forall>b. bandwidth = Some b \<longrightarrow> \<not> fl_le b (Finite 0)"
    and "length (cleaned x y) < 2"
  shows "(\<forall>v. snd (calculate_density L x y bandwidth) \<noteq> Inl (ValidationError v)) \<and>
         (\<exists>x1 y1. last (fst (calculate_density L x y bandwidth)) =
                     Call_gaussian_kde x1 y1 bandwidth \<and>
                   zip x1 y1 = cleaned x y \<and> length x1 < 2 \<and> length y1 < 2)"
proof -
  have g: "\<not> (bandwidth \<noteq> None \<and> fl_le (the bandwidth) (Finite 0))"
    using assms(3) by auto
  have "\<forall>v. snd (calculate_density L x y bandwidth) \<noteq> Inl (ValidationError v)"
    using assms(1,2) g
    by (simp add: calculate_density_valid sort_by_density_no_validation split: sum.splits)
  moreover have "last (fst (calculate_density L x y bandwidth)) =
      Call_gaussian_kde (map fst (cleaned x y)) (map snd (cleaned x y)) bandwidth"
    using assms(1,2) g by (simp add: calculate_density_valid)
  moreover have "zip (map fst (cleaned x y)) (map snd (cleaned x y)) = cleaned x y"
    by (simp add: zip_map_fst_snd)
  ultimately show ?thesis
    using assms(4) by (intro conjI exI [of _ "map fst (cleaned x y)"] exI [of _ "map snd (cleaned x y)"]) simp_all
qed


theorem calculate_density_min_count_before_cleaning_witness:
  "(\<forall>v. snd (calculate_density demo_libs [NaN, NaN] [Finite 1, Finite 2] None) \<noteq>
      Inl (ValidationError v)) \<and>
   (\<exists>x1 y1. last (fst (calculate_density demo_libs [NaN, NaN] [Finite 1, Finite 2] None)) =
              Call_gaussian_kde x1 y1 None \<and>
            zip x1 y1 = [] \<and> length x1 < 2 \<and> length y1 < 2)"
proof -
  have cl: "cleaned [NaN, NaN] [Finite 1, Finite 2] = []"
    by (simp add: cleaned_def finite_pair_def)
  show ?thesis
    using calculate_density_min_count_before_cleaning [of "[NaN, NaN]" "[Finite 1, Finite 2]"
        None demo_libs]
    by (simp add: cl)
qed

section \<open>Properties of truncate_colormap\<close>

lemma in_unit: "(fl_le (Finite 0) v \<and> fl_le v (Finite 1)) \<longleftrightarrow> \<not> outside_unit v"
  by (cases v) auto

lemma truncate_colormap_resolved:
  assumes "snd (resolve L cmap) = Inr c"
  shows "truncate_colormap L cmap minval maxval n =
     (if fl_ge minval maxval then
        (fst (resolve L cmap), Inl (ValidationError (Range_reversed minval maxval)))
      else if outside_unit minval \<or> outside_unit maxval then
        (fst (resolve L cmap), Inl (ValidationError (Range_out_of_bounds minval maxval)))
      else
        (case linspace (fl_round L) minval maxval n of
           None \<Rightarrow> (fst (resolve L cmap), Inl (LinspaceError n))
         | Some ps \<Rightarrow>
             (fst (resolve L cmap) @
                [Call_cmap (cm_name c) ps,
                 Call_from_list (truncated_name (cm_name c) minval maxval) (map (cm_call c) ps)],
              Inr \<lparr>g_name = truncated_name (cm_name c) minval maxval,
                   g_colors = map (cm_call c) ps\<rparr>)))"
proof -
  obtain ev where r: "resolve L cmap = (ev, Inr c)"
    using assms by (cases "resolve L cmap") simp
  have u: "(fl_le (Finite 0) minval \<and> fl_le minval (Finite 1) \<and>
            fl_le (Finite 0) maxval \<and> fl_le maxval (Finite 1)) \<longleftrightarrow>
           \<not> (outside_unit minval \<or> outside_unit maxval)"
    using in_unit [of minval] in_unit [of maxval] by blast
  show ?thesis
    unfolding truncate_colormap_def r u
    by (simp add: Let_def split: option.splits)
qed

lemma truncate_colormap_unresolved:
  assumes "snd (resolve L cmap) = Inl e"
  shows "truncate_colormap L cmap minval maxval n = (fst (resolve L cmap), Inl e)"
proof -
  obtain ev where r: "resolve L cmap = (ev, Inl e)"
    using assms by (cases "resolve L cmap") simp
  show ?thesis
    unfolding truncate_colormap_def r by simp
qed

text \<open>
  C4, amended. For a gradient object, or a name the registry resolves,
  \<open>truncate_colormap\<close> raises ValidationError exactly when \<open>minval >= maxval\<close> or one of
  the two lies outside the closed interval from 0 to 1; the ranges (0.5, 0.5), (-0.1, 0.9)
  and (0.1, 1.1) with \<open>n = 256\<close> all fail so.
\<close>

theorem truncate_colormap_validation_iff:
  assumes "snd (resolve L cmap) = Inr c"
  shows "((\<exists>v. snd (truncate_colormap L cmap minval maxval n) = Inl (ValidationError v)) \<longleftrightarrow>
            (fl_ge minval maxval \<or> outside_unit minval \<or> outside_unit maxval)) \<and>
         (\<exists>v. snd (truncate_colormap L cmap (Finite (1/2)) (Finite (1/2)) 256) =
                Inl (ValidationError v)) \<and>
         (\<exists>v. snd (truncate_colormap L cmap (Finite (- 1/10)) (Finite (9/10)) 256) =
                Inl (ValidationError v)) \<and>
         (\<exists>v. snd (truncate_colormap L cmap (Finite (1/10)) (Finite (11/10)) 256) =
                Inl (ValidationError v))"
proof (intro conjI)
  show "(\<exists>v. snd (truncate_colormap L cmap minval maxval n) = Inl (ValidationError v)) \<longleftrightarrow>
            (fl_ge minval maxval \<or> outside_unit minval \<or> outside_unit maxval)"
    by (simp add: truncate_colormap_resolved [OF assms] split: option.splits)
qed (simp_all add: truncate_colormap_resolved [OF assms] fl_ge_def)

theorem truncate_colormap_validation_iff_witness:
  "(\<exists>v. snd (truncate_colormap demo_libs (Named ''Reds'') PInf NaN (- 1)) =
          Inl (ValidationError v)) \<and>
   (\<exists>v. snd (truncate_colormap demo_libs (Named ''Reds'') (Finite (1/2)) (Finite (1/2)) 256) =
          Inl (ValidationError v))"
proof -
  have "snd (resolve demo_libs (Named ''Reds'')) =
      Inr \<lparr>cm_name = ''Reds'', cm_call = (\<lambda>p. p)\<rparr>"
    by (simp add: demo_libs_def registry_def)
  from truncate_colormap_validation_iff [OF this, of PInf NaN "- 1"]
  show ?thesis by simp
qed

text \<open>
  For a name the registry does not resolve the registry's failure comes first, whatever the
  range: line 109 runs before the checks of lines 112 to 116.
\<close>

theorem truncate_colormap_unknown_name:
  "truncate_colormap demo_libs (Named ''no_such_map'') (Finite (- 1/10)) (Finite (9/10)) 256 =
     ([Call_get_cmap ''no_such_map''], Inl (External ''unknown colormap''))"
  by (simp add: truncate_colormap_def demo_libs_def registry_def)

subsection \<open>The samples and the name\<close>

lemma round_half_even_near: "\<bar>of_int (round_half_even q) - q\<bar> \<le> 1 / 2"
proof -
  have "of_int \<lfloor>q\<rfloor> \<le> q" and "q < of_int \<lfloor>q\<rfloor> + 1"
    by linarith+
  then show ?thesis
    by (auto simp: round_half_even_def Let_def)
qed

lemma round_half_even_bounds:
  assumes "0 \<le> q" and "q \<le> 100"
  shows "0 \<le> round_half_even q" and "round_half_even q \<le> 100"
proof -
  have f0: "0 \<le> \<lfloor>q\<rfloor>"
    using assms(1) by simp
  have f1: "\<lfloor>q\<rfloor> \<le> 100"
    using assms(2) by (simp add: floor_le_iff)
  have f2: "\<lfloor>q\<rfloor> + 1 \<le> 100" if "0 < q - of_int \<lfloor>q\<rfloor>"
  proof -
    have "of_int \<lfloor>q\<rfloor> < q" using that by simp
    then have "of_int \<lfloor>q\<rfloor> < (100::real)" using assms(2) by linarith
    then have "\<lfloor>q\<rfloor> < 100" by linarith
    then show ?thesis by simp
  qed
  show "0 \<le> round_half_even q"
    using f0 by (simp add: round_half_even_def Let_def)
  show "round_half_even q \<le> 100"
    using f1 f2 by (simp add: round_half_even_def Let_def)
qed

lemma decimal_small: "n < 10 \<Longrightarrow> decimal n = [digit n]"
  by (simp add: decimal.simps)

lemma format_2f_unit:
  assumes "0 \<le> r" and "r \<le> 1"
  shows "\<exists>k \<le> 100. \<bar>real k / 100 - r\<bar> \<le> 1 / 200 \<and>
           format_2f (Finite r) =
             [digit (k div 100), CHR ''.'', digit (k mod 100 div 10), digit (k mod 10)]"
proof -
  let ?z = "round_half_even (\<bar>r\<bar> * 100)"
  let ?k = "nat ?z"
  have q: "0 \<le> \<bar>r\<bar> * 100" "\<bar>r\<bar> * 100 \<le> 100"
    using assms by simp_all
  have b: "0 \<le> ?z" "?z \<le> 100"
    using round_half_even_bounds [OF q] by simp_all
  then have k: "?k \<le> 100" by simp
  have rk: "real ?k = of_int ?z"
    using b(1) by (rule of_nat_nat)
  have "\<bar>of_int ?z - \<bar>r\<bar> * 100\<bar> \<le> 1 / 2"
    by (rule round_half_even_near)
  then have "\<bar>real ?k - r * 100\<bar> \<le> 1 / 2"
    unfolding rk using assms(1) by simp
  then have n: "\<bar>real ?k / 100 - r\<bar> \<le> 1 / 200"
    by (simp add: field_simps abs_le_iff)
  have "?k div 100 < 10" using k by simp
  then have f: "format_2f (Finite r) =
      [digit (?k div 100), CHR ''.'', digit (?k mod 100 div 10), digit (?k mod 10)]"
    using assms(1) by (simp add: Let_def decimal_small)
  show ?thesis
    using k n f by blast
qed

lemma demo_resolve:
  "resolve demo_libs (Named ''Reds'') =
     ([Call_get_cmap ''Reds''], Inr \<lparr>cm_name = ''Reds'', cm_call = (\<lambda>p. p)\<rparr>)"
  by (simp add: demo_libs_def registry_def)

lemma demo_format:
  "format_2f (Finite (2/5)) = ''0.40''" "format_2f (Finite (9/10)) = ''0.90''"
  by (simp_all add: round_half_even_def decimal.simps digit_def Let_def)

lemma offset_error:
  fixes rnd :: "real \<Rightarrow> real" and u a b N :: real and i :: nat
  assumes r: "\<forall>x. \<bar>x\<bar> \<le> 2 \<longrightarrow> \<bar>rnd x - x\<bar> \<le> u"
    and nu: "(N + 1) * u \<le> 1 / 4" and N1: "1 \<le> N"
    and ab: "a < b" and b1: "b - a \<le> 1" and iN: "real i \<le> N"
  shows "\<bar>(if rnd (rnd (b - a) / N) = 0 then rnd (rnd (real i / N) * rnd (b - a))
           else rnd (real i * rnd (rnd (b - a) / N))) - real i * (b - a) / N\<bar> \<le> (N + 2) * u"
proof -
  define D where "D = b - a"
  define delta where "delta = rnd D"
  define step where "step = rnd (delta / N)"
  define t where "t = real i / N"
  have u0: "0 \<le> u"
    using r [rule_format, of 0] by simp
  have u8: "u \<le> 1 / 8"
  proof -
    have "2 * u \<le> (N + 1) * u"
      using N1 u0 by (intro mult_right_mono) simp_all
    then show ?thesis using nu by simp
  qed
  have Nu: "N * u \<le> 1 / 4"
    using nu u0 by (simp add: algebra_simps)
  have D: "0 < D" "D \<le> 1"
    using ab b1 by (simp_all add: D_def)
  have t: "0 \<le> t" "t \<le> 1"
    using iN N1 by (simp_all add: t_def)
  have tD: "0 \<le> t * D" "t * D \<le> 1"
    using t D by (simp_all add: mult_le_one)
  have e1: "\<bar>delta - D\<bar> \<le> u"
    unfolding delta_def using r D by simp
  then have dl: "\<bar>delta\<bar> \<le> 9 / 8"
    using D u8 by linarith
  have "1 * \<bar>delta\<bar> \<le> N * \<bar>delta\<bar>"
    using N1 by (intro mult_right_mono) simp_all
  then have "\<bar>delta / N\<bar> \<le> \<bar>delta\<bar>"
    using N1 by (simp add: field_simps)
  then have e2: "\<bar>step - delta / N\<bar> \<le> u"
    unfolding step_def using r dl by simp
  have goal: "\<bar>(if step = 0 then rnd (rnd t * delta) else rnd (real i * step)) - t * D\<bar>
      \<le> (N + 2) * u"
  proof (cases "step = 0")
    case True
    have "\<bar>delta / N\<bar> \<le> u"
      using e2 True by simp
    then have dN: "\<bar>delta\<bar> \<le> N * u"
      using N1 by (simp add: field_simps)
    have e3: "\<bar>rnd t - t\<bar> \<le> u"
      using r t by simp
    have "rnd t * delta - t * D = (rnd t - t) * delta + t * (delta - D)"
      by (simp add: algebra_simps)
    then have "\<bar>rnd t * delta - t * D\<bar> \<le> \<bar>rnd t - t\<bar> * \<bar>delta\<bar> + t * \<bar>delta - D\<bar>"
      using t(1) by (metis abs_mult abs_of_nonneg abs_triangle_ineq)
    also have "\<dots> \<le> u * (N * u) + 1 * u"
      using e3 dN e1 t u0 by (intro add_mono mult_mono) simp_all
    also have "\<dots> \<le> u * (1 / 4) + 1 * u"
      using Nu u0 by (intro add_mono mult_left_mono) simp_all
    finally have m: "\<bar>rnd t * delta - t * D\<bar> \<le> 5 / 4 * u"
      by simp
    then have "\<bar>rnd t * delta\<bar> \<le> 2"
      using tD u8 by linarith
    then have "\<bar>rnd (rnd t * delta) - rnd t * delta\<bar> \<le> u"
      using r by simp
    then have "\<bar>rnd (rnd t * delta) - t * D\<bar> \<le> 9 / 4 * u"
      using m by linarith
    also have "\<dots> \<le> (N + 2) * u"
      using N1 u0 by (intro mult_right_mono) simp_all
    finally show ?thesis
      using True by simp
  next
    case False
    have "real i * step - t * D = real i * (step - delta / N) + t * (delta - D)"
      using N1 by (simp add: t_def field_simps)
    then have "\<bar>real i * step - t * D\<bar> \<le> real i * \<bar>step - delta / N\<bar> + t * \<bar>delta - D\<bar>"
      using t(1) by (metis abs_mult abs_of_nonneg abs_triangle_ineq of_nat_0_le_iff)
    also have "\<dots> \<le> N * u + 1 * u"
      using e1 e2 iN t u0 by (intro add_mono mult_mono) simp_all
    finally have m: "\<bar>real i * step - t * D\<bar> \<le> (N + 1) * u"
      by (simp add: algebra_simps)
    then have "\<bar>real i * step\<bar> \<le> 2"
      using tD nu by linarith
    then have "\<bar>rnd (real i * step) - real i * step\<bar> \<le> u"
      using r by simp
    then have "\<bar>rnd (real i * step) - t * D\<bar> \<le> (N + 1) * u + u"
      using m by linarith
    then show ?thesis
      using False by (simp add: algebra_simps)
  qed
  show ?thesis
    using goal unfolding step_def delta_def D_def t_def by (simp add: mult.commute)
qed


lemma sample_error:
  fixes rnd :: "real \<Rightarrow> real" and u a b N :: real and i :: nat
  assumes r: "\<forall>x. \<bar>x\<bar> \<le> 2 \<longrightarrow> \<bar>rnd x - x\<bar> \<le> u"
    and nu: "(N + 1) * u \<le> 1 / 4" and N1: "1 \<le> N"
    and a0: "0 \<le> a" and ab: "a < b" and b1: "b \<le> 1" and iN: "real i \<le> N"
  shows "\<bar>rnd ((if rnd (rnd (b - a) / N) = 0 then rnd (rnd (real i / N) * rnd (b - a))
                else rnd (real i * rnd (rnd (b - a) / N))) + a) -
          (a + real i * (b - a) / N)\<bar> \<le> (N + 3) * u"
proof -
  define y where "y = (if rnd (rnd (b - a) / N) = 0 then rnd (rnd (real i / N) * rnd (b - a))
                else rnd (real i * rnd (rnd (b - a) / N)))"
  define w where "w = real i * (b - a) / N"
  have u0: "0 \<le> u"
    using r [rule_format, of 0] by simp
  have "2 * u \<le> (N + 1) * u"
    using N1 u0 by (intro mult_right_mono) simp_all
  then have u8: "u \<le> 1 / 8"
    using nu by simp
  have "b - a \<le> 1"
    using a0 b1 by simp
  then have y: "\<bar>y - w\<bar> \<le> (N + 2) * u"
    unfolding y_def w_def using offset_error [OF r nu N1 ab _ iN] by simp
  have "(N + 2) * u = (N + 1) * u + u"
    by (simp add: algebra_simps)
  then have y': "\<bar>y - w\<bar> \<le> 3 / 8"
    using y nu u8 by linarith
  have "real i / N \<le> 1"
    using iN N1 by simp
  moreover have "0 \<le> real i / N"
    using N1 by simp
  ultimately have "0 \<le> real i / N * (b - a)" and "real i / N * (b - a) \<le> 1 * (b - a)"
    using ab by (intro mult_nonneg_nonneg mult_right_mono; simp)+
  then have w: "0 \<le> w" "w \<le> b - a"
    by (simp_all add: w_def)
  have "\<bar>y + a\<bar> \<le> 2"
    using y' w a0 b1 by linarith
  then have "\<bar>rnd (y + a) - (y + a)\<bar> \<le> u"
    using r by simp
  then have "\<bar>rnd (y + a) - (a + w)\<bar> \<le> (N + 2) * u + u"
    using y by linarith
  then show ?thesis
    unfolding y_def w_def by (simp add: algebra_simps)
qed

lemma linspace_two_or_more:
  assumes "fl_value start = Some a" and "2 \<le> n"
  shows "linspace rnd start (Finite b) n =
     Some (map Finite
       (map (\<lambda>i. rnd ((if rnd (rnd (b - a) / real (nat n - 1)) = 0
                        then rnd (rnd (real i / real (nat n - 1)) * rnd (b - a))
                        else rnd (real i * rnd (rnd (b - a) / real (nat n - 1)))) + a))
          [0..<nat n - 1] @ [b]))"
proof -
  have "nat n \<noteq> 0" "nat n \<noteq> 1" "\<not> n < 0"
    using assms(2) by simp_all
  then show ?thesis
    using assms(1) by (simp add: linspace_def Let_def comp_def)
qed

lemma digit_not_minus: "digit d \<noteq> CHR ''-''"
proof
  assume "digit d = CHR ''-''"
  then have "digit_value (digit d) = digit_value (CHR ''-'')"
    by simp
  then show False
    unfolding digit_value_digit by (simp add: digit_value_def)
qed

lemma format_2f_NegZero: "two_decimals (format_2f NegZero) 0"
  by (simp add: two_decimals_def digit_value_def)


lemma three_digits:
  fixes k :: nat
  assumes "k \<le> 100"
  shows "100 * (k div 100 mod 10) + 10 * (k mod 100 div 10 mod 10) + k mod 10 mod 10 = k"
proof -
  have "k div 100 < 10"
    using assms by (simp add: div_less_iff_less_mult)
  then have a: "k div 100 mod 10 = k div 100"
    by simp
  have "k mod 100 div 10 < 10"
    by (simp add: div_less_iff_less_mult)
  then have b: "k mod 100 div 10 mod 10 = k mod 100 div 10"
    by simp
  have d: "k mod 100 mod 10 = k mod 10"
    by (simp add: mod_mod_cancel)
  have "k = 100 * (k div 100) + k mod 100"
    by simp
  moreover have "k mod 100 = 10 * (k mod 100 div 10) + k mod 100 mod 10"
    by simp
  ultimately have "k = 100 * (k div 100) + 10 * (k mod 100 div 10) + k mod 10"
    unfolding d by linarith
  then show ?thesis
    unfolding a b by simp
qed


lemma two_decimals_digits:
  "two_decimals [digit p, CHR ''.'', digit q, digit t] r \<longleftrightarrow>
     \<bar>real (100 * (p mod 10) + 10 * (q mod 10) + t mod 10) / 100 - \<bar>r\<bar>\<bar> \<le> 1 / 200"
proof -
  have "take 1 [digit p, CHR ''.'', digit q, digit t] \<noteq> ''-''"
    by (simp add: digit_not_minus)
  then show ?thesis
    unfolding two_decimals_def by (simp add: digit_value_digit)
qed


lemma format_2f_two_decimals:
  assumes "0 \<le> r" and "r \<le> 1"
  shows "two_decimals (format_2f (Finite r)) r"
proof -
  obtain k where k: "k \<le> 100" "\<bar>real k / 100 - r\<bar> \<le> 1 / 200"
    and f: "format_2f (Finite r) =
      [digit (k div 100), CHR ''.'', digit (k mod 100 div 10), digit (k mod 10)]"
    using format_2f_unit [OF assms] by blast
  have "\<bar>real k / 100 - \<bar>r\<bar>\<bar> \<le> 1 / 200"
    using k(2) assms(1) by simp
  then show ?thesis
    unfolding f two_decimals_digits three_digits [OF k(1)] .
qed

text \<open>
  C6, amended. For a gradient object or a name the registry resolves, a range with
  \<open>0 \<le> minval < maxval \<le> 1\<close> and \<open>n \<ge> 2\<close>, \<open>truncate_colormap\<close> returns a new gradient
  built from exactly \<open>n\<close> colours of the source gradient, sampled at \<open>n\<close> positions of
  which the first is \<open>minval\<close>, the last is \<open>maxval\<close>, and the \<open>i\<close>-th is the evenly spaced
  \<open>minval + i (maxval - minval) / (n - 1)\<close> up to the rounding of double arithmetic: when
  an operation with a result of at most 2 is rounded by at most \<open>u\<close> (2 to the power
  of -53 for IEEE doubles), a position is off by at most \<open>(n + 2) u\<close>. The name of the
  new gradient is \<open>truncated(<name>,<minval>,<maxval>)\<close> with the two numbers written to
  two decimal places. Nothing is said of \<open>n = 1\<close>.
\<close>

theorem truncate_colormap_samples:
  assumes "snd (resolve L cmap) = Inr c"
    and "fl_value minval = Some a" and "maxval = Finite b"
    and "0 \<le> a" and "a < b" and "b \<le> 1" and "2 \<le> n"
    and "fl_round L 0 = 0" and "fl_round L a = a"
    and "real_of_int n * u \<le> 1 / 4"
    and "\<forall>x. \<bar>x\<bar> \<le> 2 \<longrightarrow> \<bar>fl_round L x - x\<bar> \<le> u"
  shows "\<exists>ps. snd (truncate_colormap L cmap minval maxval n) =
             Inr \<lparr>g_name = ''truncated('' @ cm_name c @ '','' @ format_2f minval @ '','' @
                            format_2f maxval @ '')'',
                  g_colors = map (\<lambda>p. cm_call c (Finite p)) ps\<rparr> \<and>
           length ps = nat n \<and> ps ! 0 = a \<and> ps ! (nat n - 1) = b \<and>
           (\<forall>i < nat n. \<bar>ps ! i - (a + real i * (b - a) / (real_of_int n - 1))\<bar>
                          \<le> (real_of_int n + 2) * u) \<and>
           two_decimals (format_2f minval) a \<and> two_decimals (format_2f maxval) b"
proof -
  define N where "N = real (nat n - 1)"
  define f where "f = (\<lambda>i. fl_round L
       ((if fl_round L (fl_round L (b - a) / N) = 0
         then fl_round L (fl_round L (real i / N) * fl_round L (b - a))
         else fl_round L (real i * fl_round L (fl_round L (b - a) / N))) + a))"
  define ps where "ps = map f [0..<nat n - 1] @ [b]"
  have N: "N = real_of_int n - 1"
    using assms(7) by (simp add: N_def)
  have N1: "1 \<le> N"
    using assms(7) by (simp add: N)
  have u0: "0 \<le> u"
    using assms(11) [rule_format, of 0] by simp
  have nu: "(N + 1) * u \<le> 1 / 4"
    using assms(10) by (simp add: N)
  have minval: "minval = Finite a \<or> (minval = NegZero \<and> a = 0)"
    using assms(2) by (cases minval) simp_all
  have valid: "\<not> fl_ge minval maxval" "\<not> outside_unit minval" "\<not> outside_unit maxval"
    using minval assms(3-6) by (auto simp: fl_ge_def)
  have ls: "linspace (fl_round L) minval maxval n = Some (map Finite ps)"
    unfolding assms(3) ps_def f_def N_def by (rule linspace_two_or_more [OF assms(2,7)])
  have res: "snd (truncate_colormap L cmap minval maxval n) =
             Inr \<lparr>g_name = ''truncated('' @ cm_name c @ '','' @ format_2f minval @ '','' @
                            format_2f maxval @ '')'',
                  g_colors = map (\<lambda>p. cm_call c (Finite p)) ps\<rparr>"
    unfolding truncate_colormap_resolved [OF assms(1)] ls
    using valid by (simp add: truncated_name_def comp_def)
  have len: "length ps = nat n"
    using assms(7) by (simp add: ps_def)
  have "0 < nat n - 1"
    using assms(7) by simp
  then have "ps ! 0 = f 0"
    by (simp add: ps_def nth_append)
  then have first: "ps ! 0 = a"
    by (simp add: f_def assms(8,9))
  have last: "ps ! (nat n - 1) = b"
    by (simp add: ps_def nth_append)
  have err: "\<bar>ps ! i - (a + real i * (b - a) / (real_of_int n - 1))\<bar>
               \<le> (real_of_int n + 2) * u" if "i < nat n" for i
  proof (cases "i < nat n - 1")
    case True
    then have "real i \<le> N"
      by (simp add: N_def)
    from sample_error [OF assms(11) nu N1 assms(4,5,6) this]
    have "\<bar>f i - (a + real i * (b - a) / N)\<bar> \<le> (N + 3) * u"
      unfolding f_def .
    moreover have "ps ! i = f i"
      using True by (simp add: ps_def nth_append)
    moreover have "N + 3 = real_of_int n + 2"
      by (simp add: N)
    ultimately show ?thesis
      by (simp only: N)
  next
    case False
    then have i: "i = nat n - 1"
      using that by simp
    have "0 \<le> (real_of_int n + 2) * u"
      using u0 assms(7) by simp
    moreover have "real (nat n - 1) * (b - a) / (real_of_int n - 1) = b - a"
      using N N1 by (simp add: N_def)
    ultimately show ?thesis
      unfolding i last by simp
  qed
  have fmt: "two_decimals (format_2f minval) a" "two_decimals (format_2f maxval) b"
    using minval assms(3-6) by (auto simp: format_2f_two_decimals format_2f_NegZero
        simp del: format_2f.simps)
  show ?thesis
    using res len first last err fmt by (intro exI [of _ ps]) blast
qed


lemma demo_format_quarters:
  "format_2f (Finite (1/4)) = ''0.25''" "format_2f (Finite (3/4)) = ''0.75''"
  by (simp_all add: round_half_even_def decimal.simps digit_def Let_def)

lemma binary10_error: "\<bar>binary10 x - x\<bar> \<le> 1 / 2048"
proof -
  define k where "k = real_of_int \<lfloor>x * 1024 + 1 / 2\<rfloor>"
  have "k \<le> x * 1024 + 1 / 2" and "x * 1024 + 1 / 2 < k + 1"
    unfolding k_def by linarith+
  moreover have "binary10 x = k / 1024"
    by (simp add: binary10_def k_def)
  ultimately show ?thesis
    by linarith
qed

lemma binary10_fixed: "binary10 0 = 0" "binary10 (1/4) = 1/4"
  by (simp_all add: binary10_def)

theorem truncate_colormap_samples_witness:
  "snd (truncate_colormap demo_libs (Named ''Reds'') (Finite (1/4)) (Finite (3/4)) 3) =
     Inr \<lparr>g_name = ''truncated(Reds,0.25,0.75)'',
          g_colors = [Finite (1/4), Finite (1/2), Finite (3/4)]\<rparr> \<and>
   (\<exists>ps. snd (truncate_colormap (demo_libs\<lparr>fl_round := binary10\<rparr>) (Named ''Reds'')
               (Finite (1/4)) (Finite (3/4)) 4) =
           Inr \<lparr>g_name = ''truncated(Reds,0.25,0.75)'', g_colors = map Finite ps\<rparr> \<and>
         length ps = 4 \<and> ps ! 0 = 1/4 \<and> ps ! 3 = 3/4 \<and>
         \<bar>ps ! 1 - 5/12\<bar> \<le> 6/2048 \<and> \<bar>ps ! 2 - 7/12\<bar> \<le> 6/2048)"
proof -
  have exact: "snd (truncate_colormap demo_libs (Named ''Reds'') (Finite (1/4))
        (Finite (3/4)) 3) =
      Inr \<lparr>g_name = ''truncated(Reds,0.25,0.75)'',
           g_colors = [Finite (1/4), Finite (1/2), Finite (3/4)]\<rparr>"
  proof -
    have r: "snd (resolve demo_libs (Named ''Reds'')) =
        Inr \<lparr>cm_name = ''Reds'', cm_call = (\<lambda>p. p)\<rparr>"
      unfolding demo_resolve by simp
    have rnd: "fl_round demo_libs = (\<lambda>r. r)"
      by (simp add: demo_libs_def)
    have "\<exists>ps. snd (truncate_colormap demo_libs (Named ''Reds'') (Finite (1/4))
              (Finite (3/4)) 3) =
               Inr \<lparr>g_name = ''truncated(Reds,0.25,0.75)'', g_colors = map Finite ps\<rparr> \<and>
             length ps = 3 \<and> ps ! 0 = 1/4 \<and> ps ! 2 = 3/4 \<and>
             (\<forall>i < 3. \<bar>ps ! i - (1/4 + real i * (3/4 - 1/4) / (3 - 1))\<bar> \<le> 0)"
      using truncate_colormap_samples [OF r, of "Finite (1/4)" "1/4" "Finite (3/4)" "3/4" 3 0]
      by (simp add: rnd demo_format_quarters del: format_2f.simps) blast
    then obtain ps where res: "snd (truncate_colormap demo_libs (Named ''Reds'')
          (Finite (1/4)) (Finite (3/4)) 3) =
            Inr \<lparr>g_name = ''truncated(Reds,0.25,0.75)'', g_colors = map Finite ps\<rparr>"
      and len: "length ps = 3" and p0: "ps ! 0 = 1/4" and p2: "ps ! 2 = 3/4"
      and e: "\<forall>i < 3. \<bar>ps ! i - (1/4 + real i * (3/4 - 1/4) / (3 - 1))\<bar> \<le> 0"
      by blast
    have p1: "ps ! 1 = 1/2"
      using e [rule_format, of 1] by simp
    obtain x y z where ps: "ps = [x, y, z]"
      using len by (auto simp: numeral_3_eq_3 length_Suc_conv)
    show ?thesis
      using res p0 p1 p2 unfolding ps by simp
  qed
  have rounded: "\<exists>ps. snd (truncate_colormap (demo_libs\<lparr>fl_round := binary10\<rparr>)
               (Named ''Reds'') (Finite (1/4)) (Finite (3/4)) 4) =
           Inr \<lparr>g_name = ''truncated(Reds,0.25,0.75)'', g_colors = map Finite ps\<rparr> \<and>
         length ps = 4 \<and> ps ! 0 = 1/4 \<and> ps ! 3 = 3/4 \<and>
         \<bar>ps ! 1 - 5/12\<bar> \<le> 6/2048 \<and> \<bar>ps ! 2 - 7/12\<bar> \<le> 6/2048"
  proof -
    let ?L = "demo_libs\<lparr>fl_round := binary10\<rparr>"
    have r: "snd (resolve ?L (Named ''Reds'')) =
        Inr \<lparr>cm_name = ''Reds'', cm_call = (\<lambda>p. p)\<rparr>"
      by (simp add: demo_libs_def registry_def)
    have "fl_round ?L = binary10"
      by simp
    then have h: "\<forall>x. \<bar>x\<bar> \<le> 2 \<longrightarrow> \<bar>fl_round ?L x - x\<bar> \<le> 1 / 2048"
      by (simp only: binary10_error) simp
    have "\<exists>ps. snd (truncate_colormap ?L (Named ''Reds'') (Finite (1/4)) (Finite (3/4)) 4) =
            Inr \<lparr>g_name = ''truncated(Reds,0.25,0.75)'', g_colors = map Finite ps\<rparr> \<and>
          length ps = 4 \<and> ps ! 0 = 1/4 \<and> ps ! 3 = 3/4 \<and>
          (\<forall>i < 4. \<bar>ps ! i - (1/4 + real i * (3/4 - 1/4) / (4 - 1))\<bar>
                     \<le> (4 + 2) * (1 / 2048))"
      using truncate_colormap_samples [OF r, of "Finite (1/4)" "1/4" "Finite (3/4)" "3/4" 4
          "1 / 2048"] h
      by (simp add: binary10_fixed demo_format_quarters del: format_2f.simps) blast
    then obtain ps where res: "snd (truncate_colormap ?L (Named ''Reds'') (Finite (1/4))
          (Finite (3/4)) 4) =
            Inr \<lparr>g_name = ''truncated(Reds,0.25,0.75)'', g_colors = map Finite ps\<rparr>"
      and len: "length ps = 4" and p0: "ps ! 0 = 1/4" and p3: "ps ! 3 = 3/4"
      and e: "\<forall>i < 4. \<bar>ps ! i - (1/4 + real i * (3/4 - 1/4) / (4 - 1))\<bar>
                       \<le> (4 + 2) * (1 / 2048)"
      by blast
    have "\<bar>ps ! 1 - 5/12\<bar> \<le> 6/2048" "\<bar>ps ! 2 - 7/12\<bar> \<le> 6/2048"
      using e [rule_format, of 1] e [rule_format, of 2] by simp_all
    then show ?thesis
      using res len p0 p3 by blast
  qed
  show ?thesis
    using exact rounded by blast
qed

text \<open>
  One sample does not span the range: with \<open>n = 1\<close> the source gradient is sampled at 0.25
  only, and 0.75 is never reached.
\<close>

theorem truncate_colormap_single_sample:
  "truncate_colormap demo_libs (Named ''Reds'') (Finite (1/4)) (Finite (3/4)) 1 =
     ([Call_get_cmap ''Reds'', Call_cmap ''Reds'' [Finite (1/4)],
       Call_from_list ''truncated(Reds,0.25,0.75)'' [Finite (1/4)]],
      Inr \<lparr>g_name = ''truncated(Reds,0.25,0.75)'', g_colors = [Finite (1/4)]\<rparr>)"
  unfolding truncate_colormap_def demo_resolve
  by (simp add: fl_ge_def truncated_name_def demo_format_quarters linspace_def demo_libs_def
      Let_def del: format_2f.simps)

subsection \<open>The order of validation and external calls\<close>

text \<open>
  C5, amended. Validation in \<open>calculate_density\<close> comes before the warning and before the
  kernel-density primitive: on invalid input nothing leaves the module. In
  \<open>truncate_colormap\<close> a name is first resolved through the registry; the range is
  validated after that and before the source gradient is sampled and the new one built. So
  with an invalid range the only external call is the lookup of the name, and the call
  fails with the registry's failure when there is one and with ValidationError otherwise.
\<close>

theorem validation_precedes_computation:
  "((length x \<noteq> length y \<or> length x < 2 \<or> (\<exists>b. bandwidth = Some b \<and> fl_le b (Finite 0))) \<longrightarrow>
      fst (calculate_density L x y bandwidth) = []) \<and>
   ((fl_ge minval maxval \<or> outside_unit minval \<or> outside_unit maxval) \<longrightarrow>
      fst (truncate_colormap L cmap minval maxval n) = fst (resolve L cmap) \<and>
      (case snd (resolve L cmap) of
         Inl e \<Rightarrow> snd (truncate_colormap L cmap minval maxval n) = Inl e
       | Inr c \<Rightarrow> \<exists>v. snd (truncate_colormap L cmap minval maxval n) =
                      Inl (ValidationError v))) \<and>
   fst (resolve L (Named s)) = [Call_get_cmap s] \<and> fst (resolve L (Object c0)) = []"
proof (intro conjI impI)
  assume "length x \<noteq> length y \<or> length x < 2 \<or> (\<exists>b. bandwidth = Some b \<and> fl_le b (Finite 0))"
  then show "fst (calculate_density L x y bandwidth) = []"
    by (auto simp: calculate_density_def)
next
  assume bad: "fl_ge minval maxval \<or> outside_unit minval \<or> outside_unit maxval"
  show "fst (truncate_colormap L cmap minval maxval n) = fst (resolve L cmap)"
  proof (cases "snd (resolve L cmap)")
    case (Inl e)
    then show ?thesis by (simp add: truncate_colormap_unresolved)
  next
    case (Inr c)
    then show ?thesis using bad by (auto simp: truncate_colormap_resolved)
  qed
  show "case snd (resolve L cmap) of
         Inl e \<Rightarrow> snd (truncate_colormap L cmap minval maxval n) = Inl e
       | Inr c \<Rightarrow> \<exists>v. snd (truncate_colormap L cmap minval maxval n) =
                      Inl (ValidationError v)"
  proof (cases "snd (resolve L cmap)")
    case (Inl e)
    then show ?thesis by (simp add: truncate_colormap_unresolved)
  next
    case (Inr c)
    then show ?thesis using bad by (auto simp: truncate_colormap_resolved)
  qed
qed simp_all

theorem validation_precedes_computation_witness:
  "fst (calculate_density demo_libs [Finite 1, Finite 2] [Finite 1, Finite 2] (Some (Finite 0))) = [] \<and>
   fst (truncate_colormap demo_libs (Named ''Reds'') (Finite (11/10)) NaN 256) =
     [Call_get_cmap ''Reds''] \<and>
   (\<exists>v. snd (truncate_colormap demo_libs (Named ''Reds'') (Finite (11/10)) NaN 256) =
          Inl (ValidationError v))"
  using validation_precedes_computation [where x = "[Finite 1, Finite 2]"
      and y = "[Finite 1, Finite 2]" and bandwidth = "Some (Finite 0)"
      and minval = "Finite (11/10)" and maxval = NaN and L = demo_libs
      and cmap = "Named ''Reds''" and n = 256]
  unfolding demo_resolve by simp

text \<open>
  The registry is consulted although the range is invalid: the lookup is in the log, in
  front of the ValidationError.
\<close>

theorem registry_consulted_before_validation:
  "truncate_colormap demo_libs (Named ''Reds'') (Finite (1/2)) (Finite (1/2)) 256 =
     ([Call_get_cmap ''Reds''],
      Inl (ValidationError (Range_reversed (Finite (1/2)) (Finite (1/2)))))"
  unfolding truncate_colormap_def demo_resolve by (simp add: fl_ge_def)




section \<open>Properties of plot_density_scatter\<close>

lemma calculate_density_events: "\<forall>e \<in> set (fst (calculate_density L x y bandwidth)). \<not> surface_event e"
  by (auto simp: calculate_density_def Let_def split: sum.splits if_splits)

lemma resolve_events: "\<forall>e \<in> set (fst (resolve L cmap)). \<not> surface_event e"
  by (cases cmap) simp_all

lemma truncate_colormap_events:
  "\<forall>e \<in> set (fst (truncate_colormap L cmap minval maxval n)). \<not> surface_event e"
proof (cases "snd (resolve L cmap)")
  case (Inl e)
  then show ?thesis
    using resolve_events [of L cmap] by (simp add: truncate_colormap_unresolved)
next
  case (Inr c)
  then show ?thesis
    using resolve_events [of L cmap]
    by (auto simp: truncate_colormap_resolved split: option.splits)
qed

lemma plot_density_fails:
  assumes "snd (calculate_density L x y bandwidth) = Inl e"
  shows "plot_density_scatter L x y bandwidth cmap minval maxval n ax kw =
           (fst (calculate_density L x y bandwidth), Inl e)"
proof -
  obtain ev where "calculate_density L x y bandwidth = (ev, Inl e)"
    using assms by (cases "calculate_density L x y bandwidth") simp
  then show ?thesis
    by (simp add: plot_density_scatter_def)
qed

lemma plot_truncate_fails:
  assumes "snd (calculate_density L x y bandwidth) = Inr r"
    and "snd (truncate_colormap L cmap minval maxval n) = Inl e"
  shows "plot_density_scatter L x y bandwidth cmap minval maxval n ax kw =
           (fst (calculate_density L x y bandwidth) @
            fst (truncate_colormap L cmap minval maxval n), Inl e)"
proof -
  obtain ev1 where "calculate_density L x y bandwidth = (ev1, Inr r)"
    using assms(1) by (cases "calculate_density L x y bandwidth") simp
  moreover obtain ev2 where "truncate_colormap L cmap minval maxval n = (ev2, Inl e)"
    using assms(2) by (cases "truncate_colormap L cmap minval maxval n") simp
  ultimately show ?thesis
    by (simp add: plot_density_scatter_def split: prod.splits)
qed

lemma plot_both_succeed:
  assumes "snd (calculate_density L x y bandwidth) = Inr (xs, ys, d)"
    and "snd (truncate_colormap L cmap minval maxval n) = Inr g"
  shows "plot_density_scatter L x y bandwidth cmap minval maxval n ax kw =
     (let ax1 = (case ax of None \<Rightarrow> gca L | Some a \<Rightarrow> a);
          kw1 = setdefault ''edgecolor'' (Str ''None'') kw;
          ev = fst (calculate_density L x y bandwidth) @
               fst (truncate_colormap L cmap minval maxval n) @
               (case ax of None \<Rightarrow> [Call_gca] | Some a \<Rightarrow> [])
      in case duplicate_keyword kw1 of
           Some k \<Rightarrow> (ev, Inl (DuplicateKeyword k))
         | None \<Rightarrow>
             (ev @ [Call_scatter ax1 xs ys d g kw1],
              case scatter L ax1 xs ys d g kw1 of
                Inl e \<Rightarrow> Inl (External e)
              | Inr h \<Rightarrow> Inr h))"
proof -
  obtain ev1 where "calculate_density L x y bandwidth = (ev1, Inr (xs, ys, d))"
    using assms(1) by (cases "calculate_density L x y bandwidth") simp
  moreover obtain ev2 where "truncate_colormap L cmap minval maxval n = (ev2, Inr g)"
    using assms(2) by (cases "truncate_colormap L cmap minval maxval n") simp
  ultimately show ?thesis
    by (simp add: plot_density_scatter_def Let_def split: option.splits)
qed

text \<open>
  C7. \<open>plot_density_scatter\<close> runs \<open>calculate_density\<close> first and \<open>truncate_colormap\<close>
  second. A failure of the first is the outcome, with the events (warnings among them) of
  the first alone; a failure of the second is the outcome, with the events of both in that
  order. In either case no event reaches the drawing surface: no current axes are asked
  for and no scatter layer is added.
\<close>

theorem plot_density_scatter_propagates:
  "(snd (calculate_density L x y bandwidth) = Inl e \<longrightarrow>
      plot_density_scatter L x y bandwidth cmap minval maxval n ax kw =
        (fst (calculate_density L x y bandwidth), Inl e)) \<and>
   (snd (calculate_density L x y bandwidth) = Inr r \<and>
    snd (truncate_colormap L cmap minval maxval n) = Inl e \<longrightarrow>
      plot_density_scatter L x y bandwidth cmap minval maxval n ax kw =
        (fst (calculate_density L x y bandwidth) @
         fst (truncate_colormap L cmap minval maxval n), Inl e)) \<and>
   (snd (calculate_density L x y bandwidth) = Inr r \<and>
    snd (truncate_colormap L cmap minval maxval n) = Inr g \<longrightarrow>
      (\<exists>ev. fst (plot_density_scatter L x y bandwidth cmap minval maxval n ax kw) =
         fst (calculate_density L x y bandwidth) @
         fst (truncate_colormap L cmap minval maxval n) @ ev)) \<and>
   (snd (calculate_density L x y bandwidth) = Inl e \<or>
    snd (truncate_colormap L cmap minval maxval n) = Inl e \<longrightarrow>
      (\<forall>a \<in> set (fst (plot_density_scatter L x y bandwidth cmap minval maxval n ax kw)).
         \<not> surface_event a))"
proof (intro conjI impI)
  assume "snd (calculate_density L x y bandwidth) = Inl e"
  then show "plot_density_scatter L x y bandwidth cmap minval maxval n ax kw =
        (fst (calculate_density L x y bandwidth), Inl e)"
    by (rule plot_density_fails)
next
  assume "snd (calculate_density L x y bandwidth) = Inr r \<and>
    snd (truncate_colormap L cmap minval maxval n) = Inl e"
  then show "plot_density_scatter L x y bandwidth cmap minval maxval n ax kw =
        (fst (calculate_density L x y bandwidth) @
         fst (truncate_colormap L cmap minval maxval n), Inl e)"
    by (simp add: plot_truncate_fails)
next
  assume a: "snd (calculate_density L x y bandwidth) = Inr r \<and>
    snd (truncate_colormap L cmap minval maxval n) = Inr g"
  obtain xs ys d where r: "r = (xs, ys, d)"
    by (cases r) auto
  show "\<exists>ev. fst (plot_density_scatter L x y bandwidth cmap minval maxval n ax kw) =
         fst (calculate_density L x y bandwidth) @
         fst (truncate_colormap L cmap minval maxval n) @ ev"
    using a unfolding r
    by (auto simp: plot_both_succeed Let_def split: option.splits)
next
  assume f: "snd (calculate_density L x y bandwidth) = Inl e \<or>
    snd (truncate_colormap L cmap minval maxval n) = Inl e"
  show "\<forall>a \<in> set (fst (plot_density_scatter L x y bandwidth cmap minval maxval n ax kw)).
         \<not> surface_event a"
  proof (cases "snd (calculate_density L x y bandwidth)")
    case (Inl e1)
    then show ?thesis
      using calculate_density_events [of L x y bandwidth] by (simp add: plot_density_fails)
  next
    case (Inr r1)
    then have "snd (truncate_colormap L cmap minval maxval n) = Inl e"
      using f by simp
    then show ?thesis
      using Inr calculate_density_events [of L x y bandwidth]
        truncate_colormap_events [of L cmap minval maxval n]
      by (auto simp: plot_truncate_fails)
  qed
qed

text \<open>
  C8, amended. When both \<open>calculate_density\<close> and \<open>truncate_colormap\<close> succeed, the
  caller's options do not contain \<open>c\<close> (nor \<open>cmap\<close>, which Python binds to the named
  parameter), and an edge colour, if the caller gives one, is given under the key
  \<open>edgecolor\<close>, the scatter primitive is called with the caller's options as they are, in
  their order, followed by \<open>edgecolor='None'\<close> when the caller gave no \<open>edgecolor\<close>; an
  \<open>edgecolor\<close> of the caller is left as it is. Nothing is said of a call that gives the
  edge colour under one of the other spellings matplotlib knows, \<open>edgecolors\<close> and \<open>ec\<close>:
  line 171 looks for the key \<open>edgecolor\<close> alone.
\<close>

theorem plot_density_scatter_forwards_options:
  assumes "snd (calculate_density L x y bandwidth) = Inr (xs, ys, d)"
    and "snd (truncate_colormap L cmap minval maxval n) = Inr g"
    and "''c'' \<notin> fst ` set kw" and "''cmap'' \<notin> fst ` set kw"
    and "''edgecolors'' \<notin> fst ` set kw" and "''ec'' \<notin> fst ` set kw"
  shows "last (fst (plot_density_scatter L x y bandwidth cmap minval maxval n ax kw)) =
           Call_scatter (case ax of None \<Rightarrow> gca L | Some a \<Rightarrow> a) xs ys d g
             (if ''edgecolor'' \<in> fst ` set kw then kw
              else kw @ [(''edgecolor'', Str ''None'')])"
proof -
  let ?kw1 = "setdefault ''edgecolor'' (Str ''None'') kw"
  have "fst ` set ?kw1 \<subseteq> insert ''edgecolor'' (fst ` set kw)"
    by (auto simp: setdefault_def)
  then have "''c'' \<notin> fst ` set ?kw1" and "''cmap'' \<notin> fst ` set ?kw1"
    using assms(3,4) by auto
  then have "\<forall>kv \<in> set ?kw1. fst kv \<noteq> ''c'' \<and> fst kv \<noteq> ''cmap''"
    by (metis image_eqI)
  then have "duplicate_keyword ?kw1 = None"
    by (auto simp: duplicate_keyword_def find_None_iff)
  then show ?thesis
    by (simp add: plot_both_succeed [OF assms(1,2)] Let_def setdefault_def)
qed


lemma demo_density:
  "calculate_density demo_libs [Finite 1, Finite 2] [Finite 1, Finite 2] None =
     ([Call_gaussian_kde [Finite 1, Finite 2] [Finite 1, Finite 2] None],
      Inr ([Finite 1, Finite 2], [Finite 1, Finite 2], [Finite 2, Finite 2]))"
  by (simp add: calculate_density_def finite_mask_def demo_libs_def window_kde_def
      sort_by_density_def argsort_def take_idx_def Let_def upt_rec [of 0] upt_rec [of 1]
      numeral_2_eq_2)

lemma demo_truncate:
  "truncate_colormap demo_libs (Named ''Reds'') (Finite (2/5)) (Finite (9/10)) 2 =
     ([Call_get_cmap ''Reds'', Call_cmap ''Reds'' [Finite (2/5), Finite (9/10)],
       Call_from_list ''truncated(Reds,0.40,0.90)'' [Finite (2/5), Finite (9/10)]],
      Inr \<lparr>g_name = ''truncated(Reds,0.40,0.90)'', g_colors = [Finite (2/5), Finite (9/10)]\<rparr>)"
  unfolding truncate_colormap_def demo_resolve
  by (simp add: fl_ge_def truncated_name_def demo_format linspace_def demo_libs_def Let_def
      del: format_2f.simps)

lemma demo_density_twins:
  "calculate_density demo_libs [Finite 1, Finite 1] [Finite 2, Finite 2] None =
     ([Call_gaussian_kde [Finite 1, Finite 1] [Finite 2, Finite 2] None],
      Inr ([Finite 1, Finite 1], [Finite 2, Finite 2], [Finite 2, Finite 2]))"
  by (simp add: calculate_density_def finite_mask_def demo_libs_def window_kde_def
      sort_by_density_def argsort_def take_idx_def Let_def upt_rec [of 0] upt_rec [of 1]
      numeral_2_eq_2)

theorem plot_density_scatter_forwards_options_witness:
  "last (fst (plot_density_scatter demo_libs [Finite 1, Finite 1] [Finite 2, Finite 2] None
            (Named ''Reds'') (Finite (2/5)) (Finite (9/10)) 2 (Some 7)
            [(''s'', Obj ()), (''marker'', Str ''x'')])) =
     Call_scatter 7 [Finite 1, Finite 1] [Finite 2, Finite 2] [Finite 2, Finite 2]
       \<lparr>g_name = ''truncated(Reds,0.40,0.90)'', g_colors = [Finite (2/5), Finite (9/10)]\<rparr>
       [(''s'', Obj ()), (''marker'', Str ''x''), (''edgecolor'', Str ''None'')] \<and>
   last (fst (plot_density_scatter demo_libs [Finite 1, Finite 1] [Finite 2, Finite 2] None
            (Named ''Reds'') (Finite (2/5)) (Finite (9/10)) 2 (Some 7)
            [(''edgecolor'', Str ''k''), (''s'', Obj ())])) =
     Call_scatter 7 [Finite 1, Finite 1] [Finite 2, Finite 2] [Finite 2, Finite 2]
       \<lparr>g_name = ''truncated(Reds,0.40,0.90)'', g_colors = [Finite (2/5), Finite (9/10)]\<rparr>
       [(''edgecolor'', Str ''k''), (''s'', Obj ())]"
proof -
  have d: "snd (calculate_density demo_libs [Finite 1, Finite 1] [Finite 2, Finite 2] None) =
      Inr ([Finite 1, Finite 1], [Finite 2, Finite 2], [Finite 2, Finite 2])"
    unfolding demo_density_twins by simp
  have t: "snd (truncate_colormap demo_libs (Named ''Reds'') (Finite (2/5)) (Finite (9/10)) 2) =
      Inr \<lparr>g_name = ''truncated(Reds,0.40,0.90)'', g_colors = [Finite (2/5), Finite (9/10)]\<rparr>"
    unfolding demo_truncate by simp
  have k: "''c'' \<notin> fst ` set [(''s'', Obj ()), (''marker'', Str ''x'')]"
    "''cmap'' \<notin> fst ` set [(''s'', Obj ()), (''marker'', Str ''x'')]"
    "''edgecolors'' \<notin> fst ` set [(''s'', Obj ()), (''marker'', Str ''x'')]"
    "''ec'' \<notin> fst ` set [(''s'', Obj ()), (''marker'', Str ''x'')]"
    by simp_all
  have k': "''c'' \<notin> fst ` set [(''edgecolor'', Str ''k''), (''s'', Obj ())]"
    "''cmap'' \<notin> fst ` set [(''edgecolor'', Str ''k''), (''s'', Obj ())]"
    "''edgecolors'' \<notin> fst ` set [(''edgecolor'', Str ''k''), (''s'', Obj ())]"
    "''ec'' \<notin> fst ` set [(''edgecolor'', Str ''k''), (''s'', Obj ())]"
    by simp_all
  from plot_density_scatter_forwards_options [OF d t k, of "Some 7"]
    plot_density_scatter_forwards_options [OF d t k', of "Some 7"]
  show ?thesis by simp
qed

text \<open>
  An option \<open>c\<close> of the caller is not forwarded: it collides with \<open>c=density\<close> on line
  173, and the call ends in a TypeError before the scatter primitive is reached.
\<close>

theorem plot_density_scatter_rejects_c:
  "plot_density_scatter demo_libs [Finite 1, Finite 2] [Finite 1, Finite 2] None
       (Named ''Reds'') (Finite (2/5)) (Finite (9/10)) 2 (Some 7) [(''c'', Str ''red'')] =
     ([Call_gaussian_kde [Finite 1, Finite 2] [Finite 1, Finite 2] None,
       Call_get_cmap ''Reds'', Call_cmap ''Reds'' [Finite (2/5), Finite (9/10)],
       Call_from_list ''truncated(Reds,0.40,0.90)'' [Finite (2/5), Finite (9/10)]],
      Inl (DuplicateKeyword ''c''))"
  unfolding plot_density_scatter_def demo_density demo_truncate
  by (simp add: setdefault_def duplicate_keyword_def)

theorem plot_density_scatter_propagates_witness:
  "plot_density_scatter demo_libs [Finite 1] [Finite 1, Finite 2] None
       (Named ''Reds'') (Finite (2/5)) (Finite (9/10)) 2 None [] =
     ([], Inl (ValidationError (Length_mismatch 1 2))) \<and>
   plot_density_scatter demo_libs [Finite 1, Finite 2] [Finite 1, Finite 2] None
       (Named ''Reds'') (Finite (9/10)) (Finite (2/5)) 2 None [] =
     ([Call_gaussian_kde [Finite 1, Finite 2] [Finite 1, Finite 2] None,
       Call_get_cmap ''Reds''],
      Inl (ValidationError (Range_reversed (Finite (9/10)) (Finite (2/5))))) \<and>
   (\<exists>ev. fst (plot_density_scatter demo_libs [Finite 1, Finite 2] [Finite 1, Finite 2] None
                 (Named ''Reds'') (Finite (2/5)) (Finite (9/10)) 2 None []) =
      [Call_gaussian_kde [Finite 1, Finite 2] [Finite 1, Finite 2] None,
       Call_get_cmap ''Reds'', Call_cmap ''Reds'' [Finite (2/5), Finite (9/10)],
       Call_from_list ''truncated(Reds,0.40,0.90)'' [Finite (2/5), Finite (9/10)]] @ ev)"
proof -
  have c1: "calculate_density demo_libs [Finite 1] [Finite 1, Finite 2] None =
      ([], Inl (ValidationError (Length_mismatch 1 2)))"
    by (simp add: calculate_density_def)
  have t2: "truncate_colormap demo_libs (Named ''Reds'') (Finite (9/10)) (Finite (2/5)) 2 =
      ([Call_get_cmap ''Reds''],
       Inl (ValidationError (Range_reversed (Finite (9/10)) (Finite (2/5)))))"
    unfolding truncate_colormap_def demo_resolve by (simp add: fl_ge_def)
  have "plot_density_scatter demo_libs [Finite 1] [Finite 1, Finite 2] None
       (Named ''Reds'') (Finite (2/5)) (Finite (9/10)) 2 None [] =
     ([], Inl (ValidationError (Length_mismatch 1 2)))"
    using plot_density_scatter_propagates [where L = demo_libs and x = "[Finite 1]"
        and y = "[Finite 1, Finite 2]" and bandwidth = None
        and e = "ValidationError (Length_mismatch 1 2)" and cmap = "Named ''Reds''"
        and minval = "Finite (2/5)" and maxval = "Finite (9/10)" and n = 2 and ax = None
        and kw = "[]"]
    unfolding c1 by simp
  moreover have "plot_density_scatter demo_libs [Finite 1, Finite 2] [Finite 1, Finite 2] None
       (Named ''Reds'') (Finite (9/10)) (Finite (2/5)) 2 None [] =
     ([Call_gaussian_kde [Finite 1, Finite 2] [Finite 1, Finite 2] None,
       Call_get_cmap ''Reds''],
      Inl (ValidationError (Range_reversed (Finite (9/10)) (Finite (2/5)))))"
    using plot_density_scatter_propagates [where L = demo_libs and x = "[Finite 1, Finite 2]"
        and y = "[Finite 1, Finite 2]" and bandwidth = None
        and r = "([Finite 1, Finite 2], [Finite 1, Finite 2], [Finite 2, Finite 2])"
        and e = "ValidationError (Range_reversed (Finite (9/10)) (Finite (2/5)))"
        and cmap = "Named ''Reds''"
        and minval = "Finite (9/10)" and maxval = "Finite (2/5)" and n = 2 and ax = None
        and kw = "[]"]
    unfolding demo_density t2 by simp
  moreover have "\<exists>ev. fst (plot_density_scatter demo_libs [Finite 1, Finite 2]
                 [Finite 1, Finite 2] None
                 (Named ''Reds'') (Finite (2/5)) (Finite (9/10)) 2 None []) =
      [Call_gaussian_kde [Finite 1, Finite 2] [Finite 1, Finite 2] None,
       Call_get_cmap ''Reds'', Call_cmap ''Reds'' [Finite (2/5), Finite (9/10)],
       Call_from_list ''truncated(Reds,0.40,0.90)'' [Finite (2/5), Finite (9/10)]] @ ev"
    using plot_density_scatter_propagates [where L = demo_libs and x = "[Finite 1, Finite 2]"
        and y = "[Finite 1, Finite 2]" and bandwidth = None
        and r = "([Finite 1, Finite 2], [Finite 1, Finite 2], [Finite 2, Finite 2])"
        and g = "\<lparr>g_name = ''truncated(Reds,0.40,0.90)'',
                  g_colors = [Finite (2/5), Finite (9/10)]\<rparr>"
        and cmap = "Named ''Reds''"
        and minval = "Finite (2/5)" and maxval = "Finite (9/10)" and n = 2 and ax = None
        and kw = "[]"]
    unfolding demo_density demo_truncate by simp
  ultimately show ?thesis by blast
qed

end
